theory Spec2Isabelle
  imports Main
begin

section \<open>React elements and the Button component (Button.jsx)\<close>

text \<open>
  A prop value is a string literal, a number, or a class name looked up in the CSS
  module (\<open>styles.container\<close>, \<open>styles.text\<close>); the CSS module only
  supplies class names, so a reference to it is kept by its key.
\<close>

datatype prop_value = Str string | Num int | Style string

type_synonym props = "(string \<times> prop_value) list"

datatype icon = CaretLeft | CaretRight

text \<open>
  The JSX forms that occur in the sources: a host element (\<open>button\<close>,
  \<open>span\<close>) with props and children, an icon of the icon library with props, the
  \<open>StrictMode\<close> wrapper around children, the element \<open>Button text=...\<close>, and a
  string child.
\<close>

datatype element =
    Host string props "element list"
  | Icon icon props
  | StrictMode "element list"
  | ButtonElement string
  | TextChild string

text \<open>
  \<^verbatim>\<open>
  function Button({ text }) {
    return (
      <button className={styles.container}>
        <CaretLeft size={32} />
        <span className={styles.text}>{text}</span>
        <CaretRight size={32} />
      </button>
    );
  }
  \<close>
\<close>

definition Button :: "string \<Rightarrow> element" where
  "Button text =
     Host ''button'' [(''className'', Style ''container'')]
       [Icon CaretLeft [(''size'', Num 32)],
        Host ''span'' [(''className'', Style ''text'')] [TextChild text],
        Icon CaretRight [(''size'', Num 32)]]"

subsection \<open>Observations on elements\<close>

fun element_tag :: "element \<Rightarrow> string option" where
  "element_tag (Host t ps ks) = Some t"
| "element_tag (Icon i ps) = None"
| "element_tag (StrictMode ks) = None"
| "element_tag (ButtonElement s) = None"
| "element_tag (TextChild s) = None"

fun children_of :: "element \<Rightarrow> element list" where
  "children_of (Host t ps ks) = ks"
| "children_of (Icon i ps) = []"
| "children_of (StrictMode ks) = ks"
| "children_of (ButtonElement s) = []"
| "children_of (TextChild s) = []"

text \<open>The names of all props in an element tree, in document order.\<close>

fun prop_names :: "element \<Rightarrow> string list" where
  "prop_names (Host t ps ks) = map fst ps @ concat (map prop_names ks)"
| "prop_names (Icon i ps) = map fst ps"
| "prop_names (StrictMode ks) = concat (map prop_names ks)"
| "prop_names (ButtonElement s) = [''text'']"
| "prop_names (TextChild s) = []"

text \<open>React names every event-handler prop \<open>on...\<close> (\<open>onClick\<close>, \<open>onChange\<close>).\<close>

definition is_event_prop :: "string \<Rightarrow> bool" where
  "is_event_prop name = (take 2 name = ''on'')"

text \<open>The string children of an element tree, in document order.\<close>

fun text_nodes :: "element \<Rightarrow> string list" where
  "text_nodes (Host t ps ks) = concat (map text_nodes ks)"
| "text_nodes (Icon i ps) = []"
| "text_nodes (StrictMode ks) = concat (map text_nodes ks)"
| "text_nodes (ButtonElement s) = []"
| "text_nodes (TextChild s) = [s]"

section \<open>The host document\<close>

text \<open>
  A DOM node is an element with tag, attributes and children, a text node, or the
  \<open>svg\<close> element the icon library puts out for an icon: its attributes and its
  drawing are the icon library's and are not modelled; it carries no identifier and no
  text.
\<close>

datatype dom =
    DomElement (tag: string) (attrs: props) (kids: "dom list")
  | DomText string
  | DomIcon icon props

text \<open>A DOM node is referred to by its path from the document element.\<close>

type_synonym node_ref = "nat list"

text \<open>The first element in tree order that carries the identifier.\<close>

fun find_id :: "dom \<Rightarrow> string \<Rightarrow> node_ref option"
  and find_id_list :: "dom list \<Rightarrow> nat \<Rightarrow> string \<Rightarrow> node_ref option" where
  "find_id (DomText s) ident = None"
| "find_id (DomIcon i ps) ident = None"
| "find_id (DomElement t a ks) ident =
     (if map_of a ''id'' = Some (Str ident) then Some []
      else find_id_list ks 0 ident)"
| "find_id_list [] n ident = None"
| "find_id_list (k # ks) n ident =
     (case find_id k ident of
        Some p \<Rightarrow> Some (n # p)
      | None \<Rightarrow> find_id_list ks (Suc n) ident)"

text \<open>
  \<open>document.getElementById\<close>: the first element in tree order that carries the
  identifier, or nothing (\<open>null\<close>); the empty identifier finds nothing.
\<close>

definition getElementById :: "dom \<Rightarrow> string \<Rightarrow> node_ref option" where
  "getElementById d ident = (if ident = [] then None else find_id d ident)"

text \<open>The identifiers the elements of a document carry, in tree order.\<close>

fun element_ids :: "dom \<Rightarrow> string list" where
  "element_ids (DomText s) = []"
| "element_ids (DomIcon i ps) = []"
| "element_ids (DomElement t a ks) =
     (case map_of a ''id'' of Some (Str i) \<Rightarrow> [i] | _ \<Rightarrow> []) @ concat (map element_ids ks)"

fun node_at :: "dom \<Rightarrow> node_ref \<Rightarrow> dom option" where
  "node_at d [] = Some d"
| "node_at (DomText s) (n # p) = None"
| "node_at (DomIcon i ps) (n # p) = None"
| "node_at (DomElement t a ks) (n # p) =
     (if n < length ks then node_at (ks ! n) p else None)"

text \<open>Replacing the children of the element at a path; any other path changes nothing.\<close>

fun set_children :: "dom list \<Rightarrow> dom \<Rightarrow> node_ref \<Rightarrow> dom" where
  "set_children new (DomText s) p = DomText s"
| "set_children new (DomIcon i ps) p = DomIcon i ps"
| "set_children new (DomElement t a ks) [] = DomElement t a new"
| "set_children new (DomElement t a ks) (n # p) =
     (if n < length ks then DomElement t a (ks[n := set_children new (ks ! n) p])
      else DomElement t a ks)"

fun text_content :: "dom \<Rightarrow> string" where
  "text_content (DomText s) = s"
| "text_content (DomIcon i ps) = []"
| "text_content (DomElement t a ks) = concat (map text_content ks)"

fun dom_text_nodes :: "dom \<Rightarrow> string list" where
  "dom_text_nodes (DomText s) = [s]"
| "dom_text_nodes (DomIcon i ps) = []"
| "dom_text_nodes (DomElement t a ks) = concat (map dom_text_nodes ks)"

text \<open>The children of the anchor, read off a document; nothing when there is no anchor.\<close>

definition anchor_content :: "dom \<Rightarrow> dom list option" where
  "anchor_content d =
     (case getElementById d ''react-root'' of
        None \<Rightarrow> None
      | Some p \<Rightarrow> map_option kids (node_at d p))"

section \<open>The UI library, as far as main.jsx uses it\<close>

text \<open>
  This section is the documented behaviour of the libraries the script calls, not code
  of the repository.

  What an element puts into the document. A host element becomes a DOM element with its
  props as attributes (the prop \<open>className\<close> is the attribute \<open>class\<close>) and its
  children's output; an icon becomes the \<open>svg\<close> element of the icon library; the
  \<open>StrictMode\<close> wrapper adds no node of its own; for \<open>Button text=s\<close> the
  library calls the component and renders what it returns; a string child becomes a
  text node, except the empty string, for which no text node is made.
\<close>

definition dom_attrs :: "props \<Rightarrow> props" where
  "dom_attrs ps = map (\<lambda>(k, v). (if k = ''className'' then ''class'' else k, v)) ps"

text \<open>
  The measure under which the rendering terminates: the element \<open>Button text=s\<close>
  weighs more than the tree the component returns for it.
\<close>

fun weight :: "element \<Rightarrow> nat" where
  "weight (Host t ps ks) = Suc (sum_list (map weight ks))"
| "weight (Icon i ps) = 1"
| "weight (StrictMode ks) = Suc (sum_list (map weight ks))"
| "weight (ButtonElement s) = 6"
| "weight (TextChild s) = 1"

function render_dom :: "element \<Rightarrow> dom list" where
  "render_dom (Host t ps ks) = [DomElement t (dom_attrs ps) (concat (map render_dom ks))]"
| "render_dom (Icon i ps) = [DomIcon i ps]"
| "render_dom (StrictMode ks) = concat (map render_dom ks)"
| "render_dom (ButtonElement s) = render_dom (Button s)"
| "render_dom (TextChild s) = (if s = [] then [] else [DomText s])"
  by pat_completeness auto
termination
proof (relation "measure weight")
  have member: "weight k \<le> sum_list (map weight ks)" if "k \<in> set ks" for k ks
    using that by (induction ks) auto
  show "wf (measure weight)"
    by simp
  show "(k, Host t ps ks) \<in> measure weight" if "k \<in> set ks" for t ps ks k
    using member [OF that] by simp
  show "(k, StrictMode ks) \<in> measure weight" if "k \<in> set ks" for ks k
    using member [OF that] by simp
  show "(Button s, ButtonElement s) \<in> measure weight" for s
    by (simp add: Button_def)
qed

text \<open>
  The library as the script meets it. \<open>development\<close> tells whether the development
  build is loaded. \<open>usable\<close> tells whether \<open>createRoot\<close> hands back a usable
  (truthy) root for a node. The library itself always does: \<open>react_dom_client\<close> is
  the library. A stand-in that hands back nothing exists only to reach the branch of
  the script that tests \<open>!root\<close>.
\<close>

record react_dom =
  usable :: "node_ref \<Rightarrow> bool"
  development :: bool

definition react_dom_client :: "bool \<Rightarrow> react_dom" where
  "react_dom_client dev = \<lparr>usable = (\<lambda>node. True), development = dev\<rparr>"

definition stand_in_without_root :: react_dom where
  "stand_in_without_root = \<lparr>usable = (\<lambda>node. False), development = True\<rparr>"

section \<open>The page: document, listeners, library state and the trace of effects\<close>

text \<open>
  What happens on the page, in the order in which it happens: registering a listener
  for an event type, the dispatch of an event of a type by the browser,
  \<open>document.getElementById\<close> of an identifier, \<open>createRoot\<close> on a node, the
  library's own \<open>console.error\<close> about a node that already has a root,
  \<open>root.render\<close> of an element into a node, the library's later commit of what was
  rendered into a node, and \<open>console.error\<close> of a message by the script.
\<close>

datatype event =
    EvListen string
  | EvDispatch string
  | EvLookup string
  | EvCreateRoot node_ref
  | EvWarning node_ref
  | EvRender node_ref element
  | EvCommit node_ref
  | EvError string

text \<open>The only callback of the sources is the arrow function of main.jsx.\<close>

datatype callback = OnReady

text \<open>
  \<open>rooted\<close> are the nodes the library has created a root for; \<open>pending\<close> are
  the renders the library has been asked for and has not yet put into the document.
\<close>

record page =
  document :: dom
  listeners :: "(string \<times> callback) list"
  rooted :: "node_ref list"
  pending :: "(node_ref \<times> element) list"
  trace :: "event list"

definition initial :: "dom \<Rightarrow> page" where
  "initial d = \<lparr>document = d, listeners = [], rooted = [], pending = [], trace = []\<rparr>"

definition emit :: "event \<Rightarrow> page \<Rightarrow> page" where
  "emit e s = s\<lparr>trace := trace s @ [e]\<rparr>"

text \<open>
  \<open>ReactDOM.createRoot(node)\<close> throws when the node is not an element. Otherwise it
  hands back a root bound to the node and remembers the node; in the development build
  it first calls \<open>console.error\<close> when the node already has a root. A stand-in that
  hands back nothing does nothing else.
\<close>

datatype root = Root (container: node_ref)

datatype created = Thrown | Falsy | Created root

fun is_element :: "dom option \<Rightarrow> bool" where
  "is_element (Some (DomElement t a ks)) = True"
| "is_element (Some (DomIcon i ps)) = True"
| "is_element (Some (DomText s)) = False"
| "is_element None = False"

definition createRoot :: "react_dom \<Rightarrow> node_ref \<Rightarrow> page \<Rightarrow> created \<times> page" where
  "createRoot lib node s =
     (if \<not> is_element (node_at (document s) node) then (Thrown, s)
      else if \<not> usable lib node then (Falsy, s)
      else
        (Created (Root node),
         (if development lib \<and> node \<in> set (rooted s) then emit (EvWarning node) s else s)
           \<lparr>rooted := node # rooted s\<rparr>))"

text \<open>
  \<open>root.render(element)\<close> asks the library for the render and returns; the library
  puts the element's output into the document later, on a turn of its own.
\<close>

definition root_render :: "root \<Rightarrow> element \<Rightarrow> page \<Rightarrow> page" where
  "root_render r el s =
     emit (EvRender (container r) el) (s\<lparr>pending := pending s @ [(container r, el)]\<rparr>)"

text \<open>
  The library's commit: each pending render, in the order of the calls, replaces the
  content of its root's node by the output of the element.
\<close>

fun commit :: "(node_ref \<times> element) list \<Rightarrow> dom \<Rightarrow> dom" where
  "commit [] d = d"
| "commit ((p, el) # rs) d = commit rs (set_children (render_dom el) d p)"

definition flush :: "page \<Rightarrow> page" where
  "flush s =
     s\<lparr>document := commit (pending s) (document s),
       pending := [],
       trace := trace s @ map (EvCommit \<circ> fst) (pending s)\<rparr>"

section \<open>The mount bootstrapper (main.jsx)\<close>

text \<open>
  \<^verbatim>\<open>
  document.addEventListener("DOMContentLoaded", () => {
    const entryPoint = document.getElementById("react-root");
    if (entryPoint) {
      const root = ReactDOM.createRoot(entryPoint);
      if (!root) {
        console.error("Root for React not found");
        return;
      }
      root.render(
        <StrictMode>
          <Button text="Click me" />
        </StrictMode>,
      );
    } else {
      console.error("DOMContent not loaded :(");
    }
  });
  \<close>
  The callback has three ways out of its own: after \<open>root.render\<close>, at the
  \<open>return\<close> under \<open>!root\<close>, and after the \<open>else\<close> branch; it catches nothing,
  so an exception of \<open>createRoot\<close> would leave it as well. A node that was found is
  an object and hence truthy, so \<open>if (entryPoint)\<close> asks whether the lookup found one.
\<close>

datatype exit = Mounted | Failed_NoRoot | Failed_NoAnchor | Uncaught

definition app :: element where
  "app = StrictMode [ButtonElement ''Click me'']"

definition on_ready :: "react_dom \<Rightarrow> page \<Rightarrow> exit \<times> page" where
  "on_ready lib s =
     (let s1 = emit (EvLookup ''react-root'') s in
      case getElementById (document s1) ''react-root'' of
        Some entryPoint \<Rightarrow>
          (case createRoot lib entryPoint (emit (EvCreateRoot entryPoint) s1) of
             (Thrown, s2) \<Rightarrow> (Uncaught, s2)
           | (Falsy, s2) \<Rightarrow>
               (Failed_NoRoot, emit (EvError ''Root for React not found'') s2)
           | (Created root, s2) \<Rightarrow> (Mounted, root_render root app s2))
      | None \<Rightarrow> (Failed_NoAnchor, emit (EvError ''DOMContent not loaded :('') s1))"

text \<open>The module's top level registers the callback, once, with no options.\<close>

definition main_jsx :: "page \<Rightarrow> page" where
  "main_jsx s =
     emit (EvListen ''DOMContentLoaded'')
       (s\<lparr>listeners := listeners s @ [(''DOMContentLoaded'', OnReady)]\<rparr>)"

fun invoke :: "react_dom \<Rightarrow> callback \<Rightarrow> page \<Rightarrow> page" where
  "invoke lib OnReady s = snd (on_ready lib s)"

text \<open>
  Dispatching an event runs, in order of registration, the callbacks that were
  registered for its type when the dispatch began.
\<close>

definition dispatchEvent :: "react_dom \<Rightarrow> string \<Rightarrow> page \<Rightarrow> page" where
  "dispatchEvent lib ty s =
     fold (invoke lib) (map snd (filter (\<lambda>l. fst l = ty) (listeners s)))
       (emit (EvDispatch ty) s)"

text \<open>
  What happens to a page: the script is loaded, an event is fired on the document, or
  the library commits what is pending.
\<close>

datatype step = LoadScript | Fire string | Flush

fun do_step :: "react_dom \<Rightarrow> step \<Rightarrow> page \<Rightarrow> page" where
  "do_step lib LoadScript s = main_jsx s"
| "do_step lib (Fire ty) s = dispatchEvent lib ty s"
| "do_step lib Flush s = flush s"

definition run :: "react_dom \<Rightarrow> step list \<Rightarrow> page \<Rightarrow> page" where
  "run lib steps s = fold (do_step lib) steps s"

subsection \<open>Observations on traces\<close>

text \<open>The messages the script itself passes to \<open>console.error\<close>.\<close>

fun console_errors :: "event list \<Rightarrow> string list" where
  "console_errors [] = []"
| "console_errors (EvError m # es) = m # console_errors es"
| "console_errors (e # es) = console_errors es"

text \<open>
  Everything that reaches \<open>console.error\<close>, in order: the script's messages and the
  library's complaint about a repeated root (its wording is the library's).
\<close>

datatype log_entry = ScriptError string | RepeatedRoot

fun console_output :: "event list \<Rightarrow> log_entry list" where
  "console_output [] = []"
| "console_output (EvError m # es) = ScriptError m # console_output es"
| "console_output (EvWarning p # es) = RepeatedRoot # console_output es"
| "console_output (e # es) = console_output es"

fun renders :: "event list \<Rightarrow> (node_ref \<times> element) list" where
  "renders [] = []"
| "renders (EvRender p el # es) = (p, el) # renders es"
| "renders (e # es) = renders es"

fun roots_created :: "event list \<Rightarrow> node_ref list" where
  "roots_created [] = []"
| "roots_created (EvCreateRoot p # es) = p # roots_created es"
| "roots_created (e # es) = roots_created es"

text \<open>Every run of the mount sequence begins with one lookup of the anchor.\<close>

fun mount_runs :: "event list \<Rightarrow> nat" where
  "mount_runs [] = 0"
| "mount_runs (EvLookup i # es) = Suc (mount_runs es)"
| "mount_runs (e # es) = mount_runs es"

text \<open>What the mount sequence does, the library's part in it included.\<close>

fun is_mount_effect :: "event \<Rightarrow> bool" where
  "is_mount_effect (EvLookup i) = True"
| "is_mount_effect (EvCreateRoot p) = True"
| "is_mount_effect (EvWarning p) = True"
| "is_mount_effect (EvRender p el) = True"
| "is_mount_effect (EvCommit p) = True"
| "is_mount_effect (EvError m) = True"
| "is_mount_effect (EvListen ty) = False"
| "is_mount_effect (EvDispatch ty) = False"

text \<open>The events a step added to the trace.\<close>

definition new_events :: "page \<Rightarrow> page \<Rightarrow> event list" where
  "new_events s s' = drop (length (trace s)) (trace s')"

text \<open>
  The events one run of the callback adds, the document it leaves, and the document
  once the library has put into it what the run asked for.
\<close>

definition ready_effects :: "react_dom \<Rightarrow> page \<Rightarrow> event list" where
  "ready_effects lib s = new_events s (snd (on_ready lib s))"

definition ready_document :: "react_dom \<Rightarrow> page \<Rightarrow> dom" where
  "ready_document lib s = document (snd (on_ready lib s))"

definition mounted_document :: "react_dom \<Rightarrow> page \<Rightarrow> dom" where
  "mounted_document lib s = document (flush (snd (on_ready lib s)))"

text \<open>
  What a run of the callback shows to an observer: the way out it took, what reached
  \<open>console.error\<close>, the element it passed to \<open>root.render\<close>, and the content of the
  anchor in the document once the library has done its part.
\<close>

definition outcome ::
  "react_dom \<Rightarrow> page \<Rightarrow> exit \<times> log_entry list \<times> element list \<times> dom list option" where
  "outcome lib s =
     (fst (on_ready lib s),
      console_output (ready_effects lib s),
      map snd (renders (ready_effects lib s)),
      anchor_content (mounted_document lib s))"

text \<open>
  A trace is ordered when each effect of the mount sequence stands after a dispatch of
  the ready signal; \<open>seen\<close> tells whether such a dispatch came before the trace.
\<close>

fun after_ready :: "bool \<Rightarrow> event list \<Rightarrow> bool" where
  "after_ready seen [] = True"
| "after_ready seen (e # es) =
     ((seen \<or> \<not> is_mount_effect e) \<and>
      after_ready (seen \<or> e = EvDispatch ''DOMContentLoaded'') es)"


text \<open>The state of a page that only ever loaded this script.\<close>

definition only_ready_listeners :: "page \<Rightarrow> bool" where
  "only_ready_listeners s = list_all (\<lambda>l. l = (''DOMContentLoaded'', OnReady)) (listeners s)"

text \<open>The host document of the guide: a heading and the empty anchor.\<close>

definition host_document :: dom where
  "host_document =
     DomElement ''html'' [(''lang'', Str ''en'')]
       [DomElement ''head'' [] [],
        DomElement ''body'' []
          [DomElement ''h1'' [] [DomText ''Hello from django''],
           DomElement ''div'' [(''id'', Str ''react-root'')] []]]"

definition bare_document :: dom where
  "bare_document =
     DomElement ''html'' [(''lang'', Str ''en'')]
       [DomElement ''head'' [] [],
        DomElement ''body'' [] [DomElement ''h1'' [] [DomText ''Hello from django'']]]"

section \<open>The build configuration (vite.config.js)\<close>

text \<open>
  The object passed to \<open>defineConfig\<close>, field by field; \<open>defineConfig\<close> hands its
  argument back unchanged. The field \<open>output\<close> of \<open>rollupOptions\<close> is named
  \<open>output_options\<close> here, \<open>output\<close> being a reserved word.
\<close>

datatype plugin = ReactSwc

record rollup_output =
  entryFileNames :: string

record rollup_options =
  input :: string
  output_options :: rollup_output

record build_options =
  rollupOptions :: rollup_options
  outDir :: string
  emptyOutDir :: bool
  manifest :: bool

record server_options =
  origin :: string
  cors :: bool

record vite_config =
  plugins :: "plugin list"
  build :: build_options
  server :: server_options

definition defineConfig :: "vite_config \<Rightarrow> vite_config" where
  "defineConfig c = c"

definition config :: vite_config where
  "config = defineConfig
     \<lparr>plugins = [ReactSwc],
      build =
        \<lparr>rollupOptions =
           \<lparr>input = ''./src/main.jsx'',
            output_options = \<lparr>entryFileNames = ''react-build.js''\<rparr>\<rparr>,
         outDir = ''../static/build/'',
         emptyOutDir = True,
         manifest = True\<rparr>,
      server = \<lparr>origin = ''http://localhost:8000'', cors = True\<rparr>\<rparr>"

section \<open>Auxiliary facts\<close>

lemma find_id_node:
  "find_id d i = Some p \<Longrightarrow>
     \<exists>t a ks. node_at d p = Some (DomElement t a ks) \<and> map_of a ''id'' = Some (Str i)"
  "find_id_list ds n i = Some q \<Longrightarrow>
     \<exists>m p t a ks. q = (n + m) # p \<and> m < length ds \<and>
        node_at (ds ! m) p = Some (DomElement t a ks) \<and> map_of a ''id'' = Some (Str i)"
proof (induction d i and ds n i arbitrary: p and q rule: find_id_find_id_list.induct)
  case (1 s ident)
  then show ?case by simp
next
  case (2 i ps ident)
  then show ?case by simp
next
  case (3 t a ks ident)
  show ?case
  proof (cases "map_of a ''id'' = Some (Str ident)")
    case True
    with 3 show ?thesis by auto
  next
    case False
    with 3 have "find_id_list ks 0 ident = Some p" by simp
    from 3(1) [OF False this] obtain m p' t' a' ks' where
      "p = m # p'" "m < length ks" "node_at (ks ! m) p' = Some (DomElement t' a' ks')"
      "map_of a' ''id'' = Some (Str ident)" by auto
    then show ?thesis by auto
  qed
next
  case (4 n ident)
  then show ?case by simp
next
  case (5 k ks n ident)
  show ?case
  proof (cases "find_id k ident")
    case None
    with 5 have "find_id_list ks (Suc n) ident = Some q" by simp
    from 5(2) [OF None this] obtain m p t a ks' where
      "q = (Suc n + m) # p" "m < length ks" "node_at (ks ! m) p = Some (DomElement t a ks')"
      "map_of a ''id'' = Some (Str ident)" by blast
    then have "q = (n + Suc m) # p \<and> Suc m < length (k # ks) \<and>
        node_at ((k # ks) ! Suc m) p = Some (DomElement t a ks') \<and> map_of a ''id'' = Some (Str ident)"
      by simp
    then show ?thesis by blast
  next
    case (Some p)
    with 5 have q: "q = n # p" by simp
    from 5(1) [OF Some] obtain t a ks' where
      "node_at k p = Some (DomElement t a ks')" "map_of a ''id'' = Some (Str ident)" by blast
    with q have "q = (n + 0) # p \<and> 0 < length (k # ks) \<and>
        node_at ((k # ks) ! 0) p = Some (DomElement t a ks') \<and> map_of a ''id'' = Some (Str ident)"
      by simp
    then show ?thesis by blast
  qed
qed

lemma getElementById_node:
  "getElementById d i = Some p \<Longrightarrow>
     \<exists>t a ks. node_at d p = Some (DomElement t a ks) \<and> map_of a ''id'' = Some (Str i)"
  by (auto simp: getElementById_def dest: find_id_node(1) split: if_splits)

lemma node_at_set_children:
  "node_at d p = Some (DomElement t a ks) \<Longrightarrow>
     node_at (set_children new d p) p = Some (DomElement t a new)"
proof (induction p arbitrary: d)
  case Nil
  then show ?case by simp
next
  case (Cons n p)
  then show ?case by (cases d) (auto split: if_splits)
qed

lemma find_id_set_children:
  "find_id d i = Some p \<Longrightarrow> find_id (set_children new d p) i = Some p"
  "find_id_list ds n i = Some q \<Longrightarrow>
     \<exists>m p. q = (n + m) # p \<and> m < length ds \<and>
        find_id_list (ds[m := set_children new (ds ! m) p]) n i = Some q"
proof (induction d i and ds n i arbitrary: p and q rule: find_id_find_id_list.induct)
  case (1 s ident)
  then show ?case by simp
next
  case (2 i ps ident)
  then show ?case by simp
next
  case (3 t a ks ident)
  show ?case
  proof (cases "map_of a ''id'' = Some (Str ident)")
    case True
    with 3 show ?thesis by auto
  next
    case False
    with 3 have "find_id_list ks 0 ident = Some p" by simp
    from 3(1) [OF False this] obtain m p' where
      "p = m # p'" "m < length ks"
      "find_id_list (ks[m := set_children new (ks ! m) p']) 0 ident = Some p" by auto
    with False show ?thesis by simp
  qed
next
  case (4 n ident)
  then show ?case by simp
next
  case (5 k ks n ident)
  show ?case
  proof (cases "find_id k ident")
    case None
    with 5 have "find_id_list ks (Suc n) ident = Some q" by simp
    from 5(2) [OF None this] obtain m p where
      "q = (Suc n + m) # p" "m < length ks"
      "find_id_list (ks[m := set_children new (ks ! m) p]) (Suc n) ident = Some q" by blast
    with None have "q = (n + Suc m) # p \<and> Suc m < length (k # ks) \<and>
        find_id_list ((k # ks)[Suc m := set_children new ((k # ks) ! Suc m) p]) n ident = Some q"
      by simp
    then show ?thesis by blast
  next
    case (Some p)
    with 5 have q: "q = n # p" by simp
    from 5(1) [OF Some] have "find_id (set_children new k p) ident = Some p" .
    with q have "q = (n + 0) # p \<and> 0 < length (k # ks) \<and>
        find_id_list ((k # ks)[0 := set_children new ((k # ks) ! 0) p]) n ident = Some q"
      by simp
    then show ?thesis by blast
  qed
qed

lemma getElementById_set_children:
  "getElementById d i = Some p \<Longrightarrow> getElementById (set_children new d p) i = Some p"
  by (auto simp: getElementById_def dest: find_id_set_children(1) split: if_splits)

lemma find_id_None_iff:
  "(find_id d i = None) = (i \<notin> set (element_ids d))"
  "(find_id_list ds n i = None) = (\<forall>d \<in> set ds. i \<notin> set (element_ids d))"
  by (induction d i and ds n i rule: find_id_find_id_list.induct)
     (auto split: option.splits prop_value.splits)

lemma getElementById_None_iff:
  "i \<noteq> [] \<Longrightarrow> (getElementById d i = None) = (i \<notin> set (element_ids d))"
  by (simp add: getElementById_def find_id_None_iff(1))

lemma anchor_is_element:
  "getElementById d i = Some p \<Longrightarrow> is_element (node_at d p)"
  using getElementById_node [of d i p] by auto

lemma render_dom_app:
  "render_dom app =
     [DomElement ''button'' [(''class'', Style ''container'')]
        [DomIcon CaretLeft [(''size'', Num 32)],
         DomElement ''span'' [(''class'', Style ''text'')] [DomText ''Click me''],
         DomIcon CaretRight [(''size'', Num 32)]]]"
  by (simp add: app_def Button_def dom_attrs_def)

lemma on_ready_no_anchor:
  assumes "getElementById (document s) ''react-root'' = None"
  shows "on_ready lib s =
    (Failed_NoAnchor,
     s\<lparr>trace := trace s @ [EvLookup ''react-root'', EvError ''DOMContent not loaded :('']\<rparr>)"
  using assms by (simp add: on_ready_def emit_def)

lemma on_ready_no_root:
  assumes "getElementById (document s) ''react-root'' = Some p" and "\<not> usable lib p"
  shows "on_ready lib s =
    (Failed_NoRoot,
     s\<lparr>trace := trace s @
        [EvLookup ''react-root'', EvCreateRoot p, EvError ''Root for React not found'']\<rparr>)"
  using assms anchor_is_element [OF assms(1)]
  by (simp add: on_ready_def emit_def createRoot_def)

text \<open>What the library logs when a root is created for a node.\<close>

lemma on_ready_mounted:
  assumes "getElementById (document s) ''react-root'' = Some p" and "usable lib p"
  shows "on_ready lib s =
    (Mounted,
     s\<lparr>rooted := p # rooted s,
       pending := pending s @ [(p, app)],
       trace := trace s @ [EvLookup ''react-root'', EvCreateRoot p] @
         (if development lib \<and> p \<in> set (rooted s) then [EvWarning p] else []) @
         [EvRender p app]\<rparr>)"
  using assms anchor_is_element [OF assms(1)]
  by (simp add: on_ready_def emit_def createRoot_def root_render_def)

lemma ready_effects_no_anchor:
  "getElementById (document s) ''react-root'' = None \<Longrightarrow>
     ready_effects lib s = [EvLookup ''react-root'', EvError ''DOMContent not loaded :('']"
  by (simp add: ready_effects_def new_events_def on_ready_no_anchor)

lemma ready_effects_no_root:
  "getElementById (document s) ''react-root'' = Some p \<Longrightarrow> \<not> usable lib p \<Longrightarrow>
     ready_effects lib s =
       [EvLookup ''react-root'', EvCreateRoot p, EvError ''Root for React not found'']"
  by (simp add: ready_effects_def new_events_def on_ready_no_root)

lemma ready_effects_mounted:
  "getElementById (document s) ''react-root'' = Some p \<Longrightarrow> usable lib p \<Longrightarrow>
     ready_effects lib s =
       [EvLookup ''react-root'', EvCreateRoot p] @
       (if development lib \<and> p \<in> set (rooted s) then [EvWarning p] else []) @
       [EvRender p app]"
  by (simp add: ready_effects_def new_events_def on_ready_mounted)

lemma on_ready_cases:
  obtains
    (no_anchor) "getElementById (document s) ''react-root'' = None"
  | (no_root) p where "getElementById (document s) ''react-root'' = Some p" "\<not> usable lib p"
  | (mounted) p where "getElementById (document s) ''react-root'' = Some p" "usable lib p"
  by (cases "getElementById (document s) ''react-root''") auto

lemma on_ready_document: "document (snd (on_ready lib s)) = document s"
  by (cases rule: on_ready_cases [where s = s and lib = lib])
     (simp_all add: on_ready_no_anchor on_ready_no_root on_ready_mounted)

lemma on_ready_listeners: "listeners (snd (on_ready lib s)) = listeners s"
  by (cases rule: on_ready_cases [where s = s and lib = lib])
     (simp_all add: on_ready_no_anchor on_ready_no_root on_ready_mounted)

lemma on_ready_trace:
  "trace (snd (on_ready lib s)) = trace s @ ready_effects lib s"
  by (cases rule: on_ready_cases [where s = s and lib = lib])
     (simp_all add: on_ready_no_anchor on_ready_no_root on_ready_mounted
        ready_effects_no_anchor ready_effects_no_root ready_effects_mounted)

lemma ready_effects_runs: "mount_runs (ready_effects lib s) = 1"
  by (cases rule: on_ready_cases [where s = s and lib = lib])
     (simp_all add: ready_effects_no_anchor ready_effects_no_root ready_effects_mounted)


lemma mount_runs_append: "mount_runs (xs @ ys) = mount_runs xs + mount_runs ys"
  by (induction xs rule: mount_runs.induct) simp_all

lemma roots_created_append: "roots_created (xs @ ys) = roots_created xs @ roots_created ys"
  by (induction xs rule: roots_created.induct) simp_all

lemma renders_append: "renders (xs @ ys) = renders xs @ renders ys"
  by (induction xs rule: renders.induct) simp_all

lemma after_ready_True: "after_ready True es"
  by (induction es) simp_all

lemma after_ready_append:
  "after_ready seen (xs @ ys) =
     (after_ready seen xs \<and>
      after_ready (seen \<or> EvDispatch ''DOMContentLoaded'' \<in> set xs) ys)"
proof (induction xs arbitrary: seen)
  case Nil
  then show ?case by simp
next
  case (Cons e es)
  have "(seen \<or> e = EvDispatch ''DOMContentLoaded'' \<or> EvDispatch ''DOMContentLoaded'' \<in> set es) =
        (seen \<or> EvDispatch ''DOMContentLoaded'' \<in> set (e # es))"
    by auto
  then show ?case
    using Cons.IH [of "seen \<or> e = EvDispatch ''DOMContentLoaded''"]
    by (simp add: disj_assoc conj_assoc)
qed

lemma after_ready_nth:
  "after_ready seen tr \<Longrightarrow> i < length tr \<Longrightarrow> is_mount_effect (tr ! i) \<Longrightarrow>
     seen \<or> (\<exists>j<i. tr ! j = EvDispatch ''DOMContentLoaded'')"
proof (induction tr arbitrary: seen i)
  case Nil
  then show ?case by simp
next
  case (Cons e es)
  show ?case
  proof (cases i)
    case 0
    with Cons.prems show ?thesis by auto
  next
    case (Suc k)
    with Cons.prems have "after_ready (seen \<or> e = EvDispatch ''DOMContentLoaded'') es"
      "k < length es" "is_mount_effect (es ! k)" by simp_all
    from Cons.IH [OF this] consider "seen" | "e = EvDispatch ''DOMContentLoaded''"
      | j where "j < k" "es ! j = EvDispatch ''DOMContentLoaded''" by blast
    then show ?thesis
    proof cases
      case 1
      then show ?thesis by simp
    next
      case 2
      then have "0 < i \<and> (e # es) ! 0 = EvDispatch ''DOMContentLoaded''"
        using Suc by simp
      then show ?thesis by blast
    next
      case 3
      then have "Suc j < i \<and> (e # es) ! Suc j = EvDispatch ''DOMContentLoaded''"
        using Suc by simp
      then show ?thesis by blast
    qed
  qed
qed

lemma fold_invoke:
  "listeners (fold (invoke lib) cs s) = listeners s \<and>
   (\<exists>es. trace (fold (invoke lib) cs s) = trace s @ es \<and> mount_runs es = length cs)"
proof (induction cs arbitrary: s)
  case Nil
  then show ?case by simp
next
  case (Cons c cs)
  obtain es where es: "trace (fold (invoke lib) cs (invoke lib c s)) = trace (invoke lib c s) @ es"
    "mount_runs es = length cs" and l: "listeners (fold (invoke lib) cs (invoke lib c s)) = listeners (invoke lib c s)"
    using Cons.IH [of "invoke lib c s"] by blast
  have c: "c = OnReady" by (cases c) simp
  have "trace (fold (invoke lib) (c # cs) s) = trace s @ (ready_effects lib s @ es)"
    using es(1) by (simp add: c on_ready_trace)
  moreover have "mount_runs (ready_effects lib s @ es) = length (c # cs)"
    by (simp add: mount_runs_append ready_effects_runs es(2))
  moreover have "listeners (fold (invoke lib) (c # cs) s) = listeners s"
    using l by (simp add: c on_ready_listeners)
  ultimately show ?case by blast
qed

lemma dispatchEvent_effects:
  "listeners (dispatchEvent lib ty s) = listeners s \<and>
   (\<exists>es. trace (dispatchEvent lib ty s) = trace s @ EvDispatch ty # es \<and>
      mount_runs es = length (filter (\<lambda>l. fst l = ty) (listeners s)))"
proof -
  let ?cs = "map snd (filter (\<lambda>l. fst l = ty) (listeners s))"
  from fold_invoke [of lib ?cs "emit (EvDispatch ty) s"]
  show ?thesis
    by (auto simp: dispatchEvent_def emit_def)
qed

lemma dispatchEvent_other:
  assumes "only_ready_listeners s" and "ty \<noteq> ''DOMContentLoaded''"
  shows "dispatchEvent lib ty s = emit (EvDispatch ty) s"
proof -
  have "filter (\<lambda>l. fst l = ty) (listeners s) = []"
    using assms by (auto simp: only_ready_listeners_def list_all_iff filter_empty_conv)
  then show ?thesis by (simp add: dispatchEvent_def)
qed

lemma dispatchEvent_single:
  assumes "listeners s = [(''DOMContentLoaded'', OnReady)]"
  shows "dispatchEvent lib ''DOMContentLoaded'' s =
           snd (on_ready lib (emit (EvDispatch ''DOMContentLoaded'') s))"
  using assms by (simp add: dispatchEvent_def emit_def)

lemma mount_runs_commits: "mount_runs (map (EvCommit \<circ> fst) rs) = 0"
  by (induction rs) simp_all

lemma roots_created_commits: "roots_created (map (EvCommit \<circ> fst) rs) = []"
  by (induction rs) simp_all

lemma renders_commits: "renders (map (EvCommit \<circ> fst) rs) = []"
  by (induction rs) simp_all

text \<open>The invariant of a page that only ever loaded this script.\<close>

lemma do_step_invariant:
  assumes "only_ready_listeners s" and "after_ready False (trace s)"
    and "pending s = [] \<or> EvDispatch ''DOMContentLoaded'' \<in> set (trace s)"
  shows "only_ready_listeners (do_step lib x s) \<and>
         after_ready False (trace (do_step lib x s)) \<and>
         (pending (do_step lib x s) = [] \<or>
          EvDispatch ''DOMContentLoaded'' \<in> set (trace (do_step lib x s)))"
proof (cases x)
  case LoadScript
  with assms show ?thesis
    by (auto simp: main_jsx_def emit_def only_ready_listeners_def after_ready_append)
next
  case (Fire ty)
  show ?thesis
  proof (cases "ty = ''DOMContentLoaded''")
    case True
    from dispatchEvent_effects [of lib ty s] obtain es where
      l: "listeners (dispatchEvent lib ty s) = listeners s" and
      t: "trace (dispatchEvent lib ty s) = trace s @ EvDispatch ty # es" by blast
    from assms l t True show ?thesis
      by (simp add: Fire only_ready_listeners_def after_ready_append after_ready_True)
  next
    case False
    with assms show ?thesis
      by (auto simp: Fire dispatchEvent_other emit_def only_ready_listeners_def
          after_ready_append)
  qed
next
  case Flush
  show ?thesis
  proof (cases "pending s = []")
    case True
    with assms show ?thesis
      by (simp add: Flush flush_def only_ready_listeners_def)
  next
    case False
    with assms(3) have "EvDispatch ''DOMContentLoaded'' \<in> set (trace s)" by simp
    with assms show ?thesis
      by (simp add: Flush flush_def only_ready_listeners_def after_ready_append
          after_ready_True)
  qed
qed

lemma run_invariant:
  assumes "only_ready_listeners s" and "after_ready False (trace s)"
    and "pending s = [] \<or> EvDispatch ''DOMContentLoaded'' \<in> set (trace s)"
  shows "only_ready_listeners (run lib steps s) \<and> after_ready False (trace (run lib steps s))"
  using assms
proof (induction steps arbitrary: s)
  case Nil
  then show ?case by (simp add: run_def)
next
  case (Cons x xs)
  from do_step_invariant [OF Cons.prems, of lib x]
  have "only_ready_listeners (do_step lib x s)" "after_ready False (trace (do_step lib x s))"
    "pending (do_step lib x s) = [] \<or>
       EvDispatch ''DOMContentLoaded'' \<in> set (trace (do_step lib x s))"
    by simp_all
  from Cons.IH [OF this] show ?case by (simp add: run_def)
qed




lemma console_errors_member:
  "m \<in> set (console_errors tr) \<Longrightarrow> EvError m \<in> set tr"
  by (induction tr rule: console_errors.induct) auto

lemma logged_after_ready:
  assumes "m \<in> set (console_errors (trace (run lib steps (initial d))))"
  shows "EvDispatch ''DOMContentLoaded'' \<in> set (trace (run lib steps (initial d)))"
proof -
  let ?tr = "trace (run lib steps (initial d))"
  have init: "only_ready_listeners (initial d)" "after_ready False (trace (initial d))"
    "pending (initial d) = [] \<or> EvDispatch ''DOMContentLoaded'' \<in> set (trace (initial d))"
    by (simp_all add: initial_def only_ready_listeners_def)
  from run_invariant [OF init, of lib steps] have ordered: "after_ready False ?tr" by simp
  from console_errors_member [OF assms] obtain i where i: "i < length ?tr" "?tr ! i = EvError m"
    by (auto simp: in_set_conv_nth)
  then have "is_mount_effect (?tr ! i)" by simp
  from after_ready_nth [OF ordered i(1) this] obtain j where
    "j < i" "?tr ! j = EvDispatch ''DOMContentLoaded''" by blast
  with i(1) show ?thesis by (metis nth_mem order.strict_trans)
qed

text \<open>Committing renders of the application into the anchor.\<close>

lemma commit_anchor:
  assumes "getElementById d ''react-root'' = Some p" and "set rs \<subseteq> {(p, app)}"
  shows "getElementById (commit rs d) ''react-root'' = Some p \<and>
         (map_option kids (node_at d p) = Some (render_dom app) \<or> rs \<noteq> [] \<longrightarrow>
          map_option kids (node_at (commit rs d) p) = Some (render_dom app))"
  using assms
proof (induction rs arbitrary: d)
  case Nil
  then show ?case by simp
next
  case (Cons r rs)
  then have r: "r = (p, app)" and rs: "set rs \<subseteq> {(p, app)}" by auto
  let ?d = "set_children (render_dom app) d p"
  from getElementById_node [OF Cons.prems(1)] obtain t a ks where
    "node_at d p = Some (DomElement t a ks)" by blast
  then have kids: "map_option kids (node_at ?d p) = Some (render_dom app)"
    by (simp add: node_at_set_children)
  have found: "getElementById ?d ''react-root'' = Some p"
    using Cons.prems(1) by (rule getElementById_set_children)
  from Cons.IH [OF found rs] kids show ?case
    by (simp add: r)
qed

lemma do_step_anchor:
  assumes "listeners s = [(''DOMContentLoaded'', OnReady)]"
    and "getElementById (document s) ''react-root'' = Some p"
    and "usable lib p"
    and "set (pending s) \<subseteq> {(p, app)}"
    and "x \<noteq> LoadScript"
  shows "listeners (do_step lib x s) = [(''DOMContentLoaded'', OnReady)] \<and>
         getElementById (document (do_step lib x s)) ''react-root'' = Some p \<and>
         set (pending (do_step lib x s)) \<subseteq> {(p, app)} \<and>
         roots_created (trace (do_step lib x s)) =
           roots_created (trace s) @ (if x = Fire ''DOMContentLoaded'' then [p] else []) \<and>
         renders (trace (do_step lib x s)) =
           renders (trace s) @ (if x = Fire ''DOMContentLoaded'' then [(p, app)] else []) \<and>
         (map_option kids (node_at (document s) p) = Some (render_dom app) \<or>
          pending s \<noteq> [] \<or> x = Fire ''DOMContentLoaded'' \<longrightarrow>
          map_option kids (node_at (document (do_step lib x s)) p) = Some (render_dom app) \<or>
          pending (do_step lib x s) \<noteq> [])"
proof (cases x)
  case LoadScript
  with assms(5) show ?thesis by simp
next
  case (Fire ty)
  show ?thesis
  proof (cases "ty = ''DOMContentLoaded''")
    case True
    let ?e = "emit (EvDispatch ''DOMContentLoaded'') s"
    have found: "getElementById (document ?e) ''react-root'' = Some p"
      using assms(2) by (simp add: emit_def)
    have step: "do_step lib x s = snd (on_ready lib ?e)"
      using True Fire assms(1) by (simp add: dispatchEvent_single)
    have val: "snd (on_ready lib ?e) =
        ?e\<lparr>rooted := p # rooted ?e,
          pending := pending ?e @ [(p, app)],
          trace := trace ?e @ [EvLookup ''react-root'', EvCreateRoot p] @
            (if development lib \<and> p \<in> set (rooted ?e) then [EvWarning p] else []) @
            [EvRender p app]\<rparr>"
      by (simp add: on_ready_mounted [OF found assms(3)])
    show ?thesis
      unfolding step val using assms(1,2,4) True Fire
      by (simp add: emit_def roots_created_append renders_append)
  next
    case False
    have "only_ready_listeners s"
      using assms(1) by (simp add: only_ready_listeners_def)
    then have "do_step lib x s = emit (EvDispatch ty) s"
      using False Fire by (simp add: dispatchEvent_other)
    with assms False Fire show ?thesis
      by (simp add: emit_def roots_created_append renders_append)
  qed
next
  case Flush
  from commit_anchor [OF assms(2,4)] assms(1) Flush show ?thesis
    by (simp add: flush_def roots_created_append renders_append
        roots_created_commits renders_commits)
qed

lemma steps_anchor:
  assumes "listeners s = [(''DOMContentLoaded'', OnReady)]"
    and "getElementById (document s) ''react-root'' = Some p"
    and "usable lib p"
    and "set (pending s) \<subseteq> {(p, app)}"
    and "LoadScript \<notin> set steps"
  shows "getElementById (document (fold (do_step lib) steps s)) ''react-root'' = Some p \<and>
         set (pending (fold (do_step lib) steps s)) \<subseteq> {(p, app)} \<and>
         roots_created (trace (fold (do_step lib) steps s)) =
           roots_created (trace s) @
           replicate (count_list steps (Fire ''DOMContentLoaded'')) p \<and>
         renders (trace (fold (do_step lib) steps s)) =
           renders (trace s) @
           replicate (count_list steps (Fire ''DOMContentLoaded'')) (p, app) \<and>
         (map_option kids (node_at (document s) p) = Some (render_dom app) \<or>
          pending s \<noteq> [] \<or> Fire ''DOMContentLoaded'' \<in> set steps \<longrightarrow>
          map_option kids (node_at (document (fold (do_step lib) steps s)) p) =
            Some (render_dom app) \<or>
          pending (fold (do_step lib) steps s) \<noteq> [])"
  using assms
proof (induction steps arbitrary: s)
  case Nil
  then show ?case by simp
next
  case (Cons x xs)
  let ?s = "do_step lib x s"
  from Cons.prems(5) have x: "x \<noteq> LoadScript" and xs: "LoadScript \<notin> set xs" by auto
  note step = do_step_anchor [OF Cons.prems(1-4) x]
  from step have l: "listeners ?s = [(''DOMContentLoaded'', OnReady)]"
    and f: "getElementById (document ?s) ''react-root'' = Some p"
    and q: "set (pending ?s) \<subseteq> {(p, app)}" by simp_all
  note ih = Cons.IH [OF l f Cons.prems(3) q xs]
  show ?case
  proof (cases "x = Fire ''DOMContentLoaded''")
    case True
    with step ih show ?thesis
      by auto
  next
    case False
    with step ih show ?thesis
      by auto
  qed
qed

lemma steps_count:
  assumes "listeners s = [(''DOMContentLoaded'', OnReady)]" and "LoadScript \<notin> set steps"
  shows "listeners (fold (do_step lib) steps s) = [(''DOMContentLoaded'', OnReady)] \<and>
         mount_runs (trace (fold (do_step lib) steps s)) =
           mount_runs (trace s) + count_list steps (Fire ''DOMContentLoaded'')"
  using assms
proof (induction steps arbitrary: s)
  case Nil
  then show ?case by simp
next
  case (Cons x xs)
  let ?s = "do_step lib x s"
  from Cons.prems(2) have x: "x \<noteq> LoadScript" and xs: "LoadScript \<notin> set xs" by auto
  have step: "listeners ?s = [(''DOMContentLoaded'', OnReady)] \<and>
      mount_runs (trace ?s) =
        mount_runs (trace s) + (if x = Fire ''DOMContentLoaded'' then 1 else 0)"
  proof (cases x)
    case LoadScript
    with x show ?thesis by simp
  next
    case (Fire ty)
    from dispatchEvent_effects [of lib ty s] Cons.prems(1) obtain es where
      "listeners (dispatchEvent lib ty s) = [(''DOMContentLoaded'', OnReady)]"
      "trace (dispatchEvent lib ty s) = trace s @ EvDispatch ty # es"
      "mount_runs es = (if ty = ''DOMContentLoaded'' then 1 else 0)"
      by auto
    then show ?thesis
      by (simp add: Fire mount_runs_append)
  next
    case Flush
    with Cons.prems(1) show ?thesis
      by (simp add: flush_def mount_runs_append mount_runs_commits)
  qed
  with Cons.IH [of ?s] xs show ?case by simp
qed

lemma commit_anchor_node:
  assumes "getElementById d ''react-root'' = Some p" and "set rs \<subseteq> {(p, app)}"
    and "node_at d p = Some (DomElement t a ks)"
  shows "node_at (commit rs d) p =
           Some (DomElement t a (if rs = [] then ks else render_dom app))"
  using assms
proof (induction rs arbitrary: d ks)
  case Nil
  then show ?case by simp
next
  case (Cons r rs)
  then have r: "r = (p, app)" and rs: "set rs \<subseteq> {(p, app)}" by auto
  let ?d = "set_children (render_dom app) d p"
  have node: "node_at ?d p = Some (DomElement t a (render_dom app))"
    using Cons.prems(3) by (rule node_at_set_children)
  have found: "getElementById ?d ''react-root'' = Some p"
    using Cons.prems(1) by (rule getElementById_set_children)
  from Cons.IH [OF found rs node] show ?case
    by (simp add: r)
qed

lemma page_mounted:
  assumes "LoadScript \<notin> set steps" and "getElementById d ''react-root'' = Some p"
    and "usable lib p" and "Fire ''DOMContentLoaded'' \<in> set steps"
  shows "map_option kids
           (node_at (document (flush (run lib (LoadScript # steps) (initial d)))) p) =
         Some (render_dom app)"
proof -
  let ?s = "main_jsx (initial d)"
  let ?end = "fold (do_step lib) steps ?s"
  have run: "run lib (LoadScript # steps) (initial d) = ?end"
    by (simp add: run_def)
  have l: "listeners ?s = [(''DOMContentLoaded'', OnReady)]"
    and f: "getElementById (document ?s) ''react-root'' = Some p"
    and sub: "set (pending ?s) \<subseteq> {(p, app)}"
    using assms(2) by (simp_all add: main_jsx_def emit_def initial_def)
  note facts = steps_anchor [OF l f assms(3) sub assms(1)]
  from facts have f': "getElementById (document ?end) ''react-root'' = Some p"
    and sub': "set (pending ?end) \<subseteq> {(p, app)}" by simp_all
  show ?thesis
    unfolding run using facts assms(4) commit_anchor [OF f' sub'] by (auto simp: flush_def)
qed

lemma outcome_same_state:
  assumes "document s1 = document s2" and "rooted s1 = rooted s2"
    and "pending s1 = pending s2"
  shows "outcome lib s1 = outcome lib s2"
proof (cases rule: on_ready_cases [where s = s1 and lib = lib])
  case no_anchor
  then have "getElementById (document s2) ''react-root'' = None"
    using assms(1) by simp
  with no_anchor assms show ?thesis
    by (simp add: outcome_def mounted_document_def flush_def ready_effects_no_anchor
        on_ready_no_anchor)
next
  case (no_root p)
  then have "getElementById (document s2) ''react-root'' = Some p"
    using assms(1) by simp
  with no_root assms show ?thesis
    by (simp add: outcome_def mounted_document_def flush_def ready_effects_no_root
        on_ready_no_root)
next
  case (mounted p)
  then have "getElementById (document s2) ''react-root'' = Some p"
    using assms(1) by simp
  with mounted assms show ?thesis
    by (simp add: outcome_def mounted_document_def flush_def ready_effects_mounted
        on_ready_mounted)
qed

lemma branch_agree:
  assumes "(getElementById (document s1) ''react-root'' = None) =
           (getElementById (document s2) ''react-root'' = None)"
    and "\<And>p1 p2. getElementById (document s1) ''react-root'' = Some p1 \<Longrightarrow>
           getElementById (document s2) ''react-root'' = Some p2 \<Longrightarrow>
           usable lib1 p1 = usable lib2 p2"
  shows "fst (on_ready lib1 s1) = fst (on_ready lib2 s2) \<and>
         console_errors (ready_effects lib1 s1) = console_errors (ready_effects lib2 s2) \<and>
         map snd (renders (ready_effects lib1 s1)) =
           map snd (renders (ready_effects lib2 s2)) \<and>
         ((\<forall>p1 p2. getElementById (document s1) ''react-root'' = Some p1 \<and>
              getElementById (document s2) ''react-root'' = Some p2 \<longrightarrow>
              (development lib1 \<and> p1 \<in> set (rooted s1)) =
              (development lib2 \<and> p2 \<in> set (rooted s2))) \<longrightarrow>
          console_output (ready_effects lib1 s1) = console_output (ready_effects lib2 s2))"
proof (cases "getElementById (document s1) ''react-root''")
  case None
  with assms(1) have "getElementById (document s2) ''react-root'' = None" by simp
  with None show ?thesis
    by (simp add: ready_effects_no_anchor on_ready_no_anchor)
next
  case (Some p1)
  with assms(1) obtain p2 where p2: "getElementById (document s2) ''react-root'' = Some p2"
    by auto
  from assms(2) [OF Some p2] have agree: "usable lib1 p1 = usable lib2 p2" .
  show ?thesis
  proof (cases "usable lib1 p1")
    case True
    with agree have "usable lib2 p2" by simp
    with True Some p2 show ?thesis
      by (simp add: ready_effects_mounted on_ready_mounted)
  next
    case False
    with agree have "\<not> usable lib2 p2" by simp
    with False Some p2 show ?thesis
      by (simp add: ready_effects_no_root on_ready_no_root)
  qed
qed

section \<open>The claims\<close>

subsection \<open>C1: mounting into a present anchor\<close>

text \<open>
  C1: whenever the anchor is present at the ready signal (and whatever the library still
  has to put into the document are renders of this application into the anchor; on a
  first run, nothing), the callback run against the library leaves by the success exit
  without logging anything itself, creates one root on the anchor and passes to its one
  render the button wrapped in \<open>StrictMode\<close>; the library logs its complaint only
  in the development build when the anchor already has a root. Once the library has
  done the render, the anchor (same tag, same attributes, still the element the lookup
  finds) has exactly one child, the button subtree, whose text is \<open>Click me\<close>. The library always hands
  back a root, in the development build and in the production build alike. In
  particular, on a page that loaded the script once, whatever happened before, a firing
  of the ready signal on a document with the anchor leads to that content of the anchor.
\<close>

theorem mount_success:
  assumes "getElementById (document s) ''react-root'' = Some p"
    and "set (pending s) \<subseteq> {(p, StrictMode [ButtonElement ''Click me''])}"
  shows "fst (on_ready (react_dom_client dev) s) = Mounted \<and>
         map_option kids (node_at (mounted_document (react_dom_client dev) s) p) =
           Some [DomElement ''button'' [(''class'', Style ''container'')]
                   [DomIcon CaretLeft [(''size'', Num 32)],
                    DomElement ''span'' [(''class'', Style ''text'')] [DomText ''Click me''],
                    DomIcon CaretRight [(''size'', Num 32)]]] \<and>
         map_option (map text_content \<circ> kids)
             (node_at (mounted_document (react_dom_client dev) s) p) =
           Some [''Click me''] \<and>
         map_option tag (node_at (mounted_document (react_dom_client dev) s) p) =
           map_option tag (node_at (document s) p) \<and>
         map_option attrs (node_at (mounted_document (react_dom_client dev) s) p) =
           map_option attrs (node_at (document s) p) \<and>
         getElementById (mounted_document (react_dom_client dev) s) ''react-root'' = Some p \<and>
         renders (ready_effects (react_dom_client dev) s) =
           [(p, StrictMode [ButtonElement ''Click me''])] \<and>
         roots_created (ready_effects (react_dom_client dev) s) = [p] \<and>
         console_errors (ready_effects (react_dom_client dev) s) = [] \<and>
         console_output (ready_effects (react_dom_client dev) s) =
           (if dev \<and> p \<in> set (rooted s) then [RepeatedRoot] else []) \<and>
         (LoadScript \<notin> set steps \<and> getElementById d ''react-root'' = Some q \<longrightarrow>
          map_option kids
              (node_at (document (flush (run (react_dom_client dev)
                 (LoadScript # steps @ [Fire ''DOMContentLoaded'']) (initial d)))) q) =
            Some [DomElement ''button'' [(''class'', Style ''container'')]
                    [DomIcon CaretLeft [(''size'', Num 32)],
                     DomElement ''span'' [(''class'', Style ''text'')] [DomText ''Click me''],
                     DomIcon CaretRight [(''size'', Num 32)]]])"
proof -
  let ?lib = "react_dom_client dev"
  have u: "usable ?lib p"
    by (simp add: react_dom_client_def)
  from getElementById_node [OF assms(1)] obtain t a ks where
    node: "node_at (document s) p = Some (DomElement t a ks)" by blast
  let ?rs = "pending s @ [(p, app)]"
  have rs: "set ?rs \<subseteq> {(p, app)}" "?rs \<noteq> []"
    using assms(2) by (simp_all add: app_def)
  have doc: "mounted_document ?lib s = commit ?rs (document s)"
    by (simp add: mounted_document_def flush_def on_ready_mounted [OF assms(1) u])
  have after: "node_at (mounted_document ?lib s) p = Some (DomElement t a (render_dom app))"
    unfolding doc using commit_anchor_node [OF assms(1) rs(1) node] rs(2) by simp
  have found: "getElementById (mounted_document ?lib s) ''react-root'' = Some p"
    unfolding doc using commit_anchor [OF assms(1) rs(1)] by simp
  have effects: "ready_effects ?lib s =
      [EvLookup ''react-root'', EvCreateRoot p] @
      (if development ?lib \<and> p \<in> set (rooted s) then [EvWarning p] else []) @
      [EvRender p app]"
    using assms(1) u by (rule ready_effects_mounted)
  have exit: "fst (on_ready ?lib s) = Mounted"
    by (simp add: on_ready_mounted [OF assms(1) u])
  have dev: "development ?lib = dev"
    by (simp add: react_dom_client_def)
  have page: "map_option kids
        (node_at (document (flush (run ?lib
           (LoadScript # steps @ [Fire ''DOMContentLoaded'']) (initial d)))) q) =
      Some (render_dom app)"
    if "LoadScript \<notin> set steps" "getElementById d ''react-root'' = Some q"
  proof (rule page_mounted)
    show "LoadScript \<notin> set (steps @ [Fire ''DOMContentLoaded''])"
      using that(1) by simp
    show "getElementById d ''react-root'' = Some q"
      by (rule that(2))
    show "usable ?lib q"
      by (simp add: react_dom_client_def)
    show "Fire ''DOMContentLoaded'' \<in> set (steps @ [Fire ''DOMContentLoaded''])"
      by simp
  qed
  have handler: "fst (on_ready ?lib s) = Mounted \<and>
      map_option kids (node_at (mounted_document ?lib s) p) = Some (render_dom app) \<and>
      map_option tag (node_at (mounted_document ?lib s) p) =
        map_option tag (node_at (document s) p) \<and>
      map_option attrs (node_at (mounted_document ?lib s) p) =
        map_option attrs (node_at (document s) p) \<and>
      getElementById (mounted_document ?lib s) ''react-root'' = Some p \<and>
      renders (ready_effects ?lib s) = [(p, app)] \<and>
      roots_created (ready_effects ?lib s) = [p] \<and>
      console_errors (ready_effects ?lib s) = [] \<and>
      console_output (ready_effects ?lib s) =
        (if dev \<and> p \<in> set (rooted s) then [RepeatedRoot] else [])"
    by (simp add: exit after node found effects dev)
  from handler page [unfolded render_dom_app] show ?thesis
    unfolding render_dom_app by (auto simp: app_def)
qed

text \<open>C1 at the host document of the guide, with the development build.\<close>

theorem mount_success_witness:
  "getElementById (document (initial host_document)) ''react-root'' = Some [1, 1] \<and>
   set (pending (initial host_document)) \<subseteq>
     {([1, 1], StrictMode [ButtonElement ''Click me''])} \<and>
   fst (on_ready (react_dom_client True) (initial host_document)) = Mounted \<and>
   map_option (map text_content \<circ> kids)
     (node_at (mounted_document (react_dom_client True) (initial host_document)) [1, 1]) =
       Some [''Click me''] \<and>
   renders (ready_effects (react_dom_client True) (initial host_document)) =
     [([1, 1], StrictMode [ButtonElement ''Click me''])] \<and>
   LoadScript \<notin> set [Fire ''click''] \<and>
   getElementById host_document ''react-root'' = Some [1, 1] \<and>
   map_option (map text_content \<circ> kids)
     (node_at (document (flush (run (react_dom_client True)
        (LoadScript # [Fire ''click''] @ [Fire ''DOMContentLoaded''])
        (initial host_document)))) [1, 1]) = Some [''Click me'']"
proof -
  have h: "getElementById (document (initial host_document)) ''react-root'' = Some [1, 1]"
    by (simp add: initial_def host_document_def getElementById_def)
  have q: "set (pending (initial host_document)) \<subseteq>
     {([1, 1], StrictMode [ButtonElement ''Click me''])}"
    by (simp add: initial_def)
  have h': "getElementById host_document ''react-root'' = Some [1, 1]"
    by (simp add: host_document_def getElementById_def)
  from h q h'
    mount_success [where s = "initial host_document" and p = "[1, 1]" and dev = True
      and steps = "[Fire ''click'']" and d = host_document and q = "[1, 1]", OF h q]
  show ?thesis by auto
qed

subsection \<open>C2: no anchor\<close>

text \<open>
  C2: when no element of the document carries the identifier at the ready signal, the
  callback leaves the document as it was, asks the library for nothing, creates no root,
  sends exactly one message to \<open>console.error\<close> (the one of the missing anchor), looks
  the anchor up once and registers nothing for a later attempt.
\<close>

theorem no_anchor_logs_once:
  assumes "''react-root'' \<notin> set (element_ids (document s))"
  shows "fst (on_ready lib s) = Failed_NoAnchor \<and>
         ready_document lib s = document s \<and>
         pending (snd (on_ready lib s)) = pending s \<and>
         renders (ready_effects lib s) = [] \<and>
         roots_created (ready_effects lib s) = [] \<and>
         console_errors (ready_effects lib s) = [''DOMContent not loaded :(''] \<and>
         console_output (ready_effects lib s) = [ScriptError ''DOMContent not loaded :(''] \<and>
         mount_runs (ready_effects lib s) = 1 \<and>
         listeners (snd (on_ready lib s)) = listeners s"
proof -
  from assms have "getElementById (document s) ''react-root'' = None"
    by (simp add: getElementById_None_iff)
  then show ?thesis
    by (simp add: ready_effects_no_anchor ready_document_def on_ready_no_anchor)
qed

text \<open>C2 at a document with no anchor.\<close>

theorem no_anchor_logs_once_witness:
  "''react-root'' \<notin> set (element_ids (document (initial bare_document))) \<and>
   fst (on_ready (react_dom_client True) (initial bare_document)) = Failed_NoAnchor \<and>
   ready_document (react_dom_client True) (initial bare_document) = bare_document \<and>
   console_errors (ready_effects (react_dom_client True) (initial bare_document)) =
     [''DOMContent not loaded :('']"
proof -
  have h: "''react-root'' \<notin> set (element_ids (document (initial bare_document)))"
    by (simp add: initial_def bare_document_def)
  show ?thesis
    using h no_anchor_logs_once [of "initial bare_document" "react_dom_client True", OF h]
    by (simp add: initial_def)
qed

subsection \<open>C3: how often the mount sequence runs\<close>

text \<open>
  C3, as stated, promises at most one run of the mount sequence even when the ready
  signal fires more than once. The listener is registered with no \<open>once\<close> option and
  the callback keeps no flag: at the host document of the guide, two firings give two
  lookups, two roots on the same anchor and two renders.
\<close>

theorem second_firing_counterexample:
  "mount_runs (trace (run (react_dom_client True)
      [LoadScript, Fire ''DOMContentLoaded'', Fire ''DOMContentLoaded'']
      (initial host_document))) = 2
   \<and> roots_created (trace (run (react_dom_client True)
      [LoadScript, Fire ''DOMContentLoaded'', Fire ''DOMContentLoaded'']
      (initial host_document))) = [[1, 1], [1, 1]]
   \<and> map fst (renders (trace (run (react_dom_client True)
      [LoadScript, Fire ''DOMContentLoaded'', Fire ''DOMContentLoaded'']
      (initial host_document)))) = [[1, 1], [1, 1]]"
  by (simp add: run_def dispatchEvent_def main_jsx_def emit_def initial_def on_ready_def
      createRoot_def react_dom_client_def root_render_def host_document_def app_def
      getElementById_def)

text \<open>
  C3, amended: loading the script registers exactly one listener, and in every history
  after that (events fired and commits of the library, in any order) the mount sequence
  has run once for each firing of the ready signal and for no other event; so it runs at
  most once when the signal fires at most once. When the anchor is present and the root
  creation succeeds, each firing creates one more root on the anchor and renders once
  more; and once the library has done the renders, the anchor holds exactly one button
  subtree after any number (at least one) of firings, since each render replaces the
  content of the anchor.
\<close>

theorem runs_once_per_firing:
  assumes "LoadScript \<notin> set steps"
  shows "listeners (run lib (LoadScript # steps) (initial d)) =
     [(''DOMContentLoaded'', OnReady)]
   \<and> mount_runs (trace (run lib (LoadScript # steps) (initial d))) =
       count_list steps (Fire ''DOMContentLoaded'')
   \<and> (count_list steps (Fire ''DOMContentLoaded'') \<le> 1 \<longrightarrow>
       mount_runs (trace (run lib (LoadScript # steps) (initial d))) \<le> 1)
   \<and> (\<forall>p. getElementById d ''react-root'' = Some p \<and> usable lib p \<longrightarrow>
         roots_created (trace (run lib (LoadScript # steps) (initial d))) =
           replicate (count_list steps (Fire ''DOMContentLoaded'')) p \<and>
         renders (trace (run lib (LoadScript # steps) (initial d))) =
           replicate (count_list steps (Fire ''DOMContentLoaded''))
             (p, StrictMode [ButtonElement ''Click me'']) \<and>
         (Fire ''DOMContentLoaded'' \<in> set steps \<longrightarrow>
          map_option kids
              (node_at (document (flush (run lib (LoadScript # steps) (initial d)))) p) =
            Some [DomElement ''button'' [(''class'', Style ''container'')]
                    [DomIcon CaretLeft [(''size'', Num 32)],
                     DomElement ''span'' [(''class'', Style ''text'')] [DomText ''Click me''],
                     DomIcon CaretRight [(''size'', Num 32)]]]))"
proof -
  let ?s = "main_jsx (initial d)"
  let ?end = "fold (do_step lib) steps ?s"
  have run: "run lib (LoadScript # steps) (initial d) = ?end"
    by (simp add: run_def)
  have l: "listeners ?s = [(''DOMContentLoaded'', OnReady)]"
    and t: "trace ?s = [EvListen ''DOMContentLoaded'']" and d: "document ?s = d"
    and q: "pending ?s = []"
    by (simp_all add: main_jsx_def emit_def initial_def)
  from steps_count [OF l assms, of lib] t
  have count: "listeners ?end = [(''DOMContentLoaded'', OnReady)]"
    "mount_runs (trace ?end) = count_list steps (Fire ''DOMContentLoaded'')"
    by simp_all
  have dom: "roots_created (trace ?end) =
        replicate (count_list steps (Fire ''DOMContentLoaded'')) p \<and>
      renders (trace ?end) =
        replicate (count_list steps (Fire ''DOMContentLoaded'')) (p, app) \<and>
      (Fire ''DOMContentLoaded'' \<in> set steps \<longrightarrow>
        map_option kids (node_at (document (flush ?end)) p) = Some (render_dom app))"
    if found: "getElementById d ''react-root'' = Some p" and u: "usable lib p" for p
  proof -
    have f: "getElementById (document ?s) ''react-root'' = Some p"
      using found d by simp
    have sub: "set (pending ?s) \<subseteq> {(p, app)}"
      using q by simp
    note facts = steps_anchor [OF l f u sub assms]
    from facts have f': "getElementById (document ?end) ''react-root'' = Some p"
      and sub': "set (pending ?end) \<subseteq> {(p, app)}" by simp_all
    have "map_option kids (node_at (document (flush ?end)) p) = Some (render_dom app)"
      if "Fire ''DOMContentLoaded'' \<in> set steps"
      using facts that commit_anchor [OF f' sub'] by (auto simp: flush_def)
    with facts t show ?thesis by simp
  qed
  show ?thesis
    unfolding run using count dom [unfolded render_dom_app] by (auto simp: app_def)
qed

text \<open>C3, amended, at the host document of the guide, for one firing and for two.\<close>

theorem runs_once_per_firing_witness:
  "LoadScript \<notin> set [Fire ''DOMContentLoaded'', Flush]
   \<and> count_list [Fire ''DOMContentLoaded'', Flush] (Fire ''DOMContentLoaded'') \<le> 1
   \<and> mount_runs (trace (run (react_dom_client True)
        (LoadScript # [Fire ''DOMContentLoaded'', Flush]) (initial host_document))) \<le> 1
   \<and> getElementById host_document ''react-root'' = Some [1, 1]
   \<and> usable (react_dom_client True) [1, 1]
   \<and> Fire ''DOMContentLoaded'' \<in> set [Fire ''DOMContentLoaded'', Fire ''DOMContentLoaded'']
   \<and> roots_created (trace (run (react_dom_client True)
        (LoadScript # [Fire ''DOMContentLoaded'', Fire ''DOMContentLoaded''])
        (initial host_document))) = [[1, 1], [1, 1]]
   \<and> map_option (map text_content \<circ> kids)
        (node_at (document (flush (run (react_dom_client True)
           (LoadScript # [Fire ''DOMContentLoaded'', Fire ''DOMContentLoaded''])
           (initial host_document)))) [1, 1]) = Some [''Click me'']"
proof -
  have h: "getElementById host_document ''react-root'' = Some [1, 1]"
    by (simp add: host_document_def getElementById_def)
  have u: "usable (react_dom_client True) [1, 1]"
    by (simp add: react_dom_client_def)
  have a: "LoadScript \<notin> set [Fire ''DOMContentLoaded'', Flush]"
    and b: "LoadScript \<notin> set [Fire ''DOMContentLoaded'', Fire ''DOMContentLoaded'']"
    by simp_all
  from h u
    runs_once_per_firing [OF a, of "react_dom_client True" host_document]
    runs_once_per_firing [OF b, of "react_dom_client True" host_document]
  show ?thesis by auto
qed

subsection \<open>C4: anchor found, no usable root\<close>

text \<open>
  C4: when the anchor is found and the root creation yields no usable handle, the
  callback leaves at the early return, logs one error that is not the one of the
  missing anchor, leaves the document as it was, renders nothing, and makes one lookup
  and one root creation with nothing registered for a later attempt.
\<close>

theorem no_root_logs_and_aborts:
  assumes "getElementById (document s) ''react-root'' = Some p" and "\<not> usable lib p"
  shows "fst (on_ready lib s) = Failed_NoRoot \<and>
         console_errors (ready_effects lib s) = [''Root for React not found''] \<and>
         console_errors (ready_effects lib s) \<noteq> [''DOMContent not loaded :(''] \<and>
         console_output (ready_effects lib s) = [ScriptError ''Root for React not found''] \<and>
         ready_document lib s = document s \<and>
         pending (snd (on_ready lib s)) = pending s \<and>
         renders (ready_effects lib s) = [] \<and>
         roots_created (ready_effects lib s) = [p] \<and>
         mount_runs (ready_effects lib s) = 1 \<and>
         listeners (snd (on_ready lib s)) = listeners s"
  using assms
  by (simp add: ready_effects_no_root ready_document_def on_ready_no_root)

text \<open>C4 at the host document of the guide, with a stand-in that yields no root.\<close>

theorem no_root_logs_and_aborts_witness:
  "getElementById (document (initial host_document)) ''react-root'' = Some [1, 1] \<and>
   \<not> usable stand_in_without_root [1, 1] \<and>
   fst (on_ready stand_in_without_root (initial host_document)) = Failed_NoRoot \<and>
   console_errors (ready_effects stand_in_without_root (initial host_document)) =
     [''Root for React not found''] \<and>
   ready_document stand_in_without_root (initial host_document) = host_document \<and>
   renders (ready_effects stand_in_without_root (initial host_document)) = []"
proof -
  have h: "getElementById (document (initial host_document)) ''react-root'' = Some [1, 1]"
    by (simp add: initial_def host_document_def getElementById_def)
  have u: "\<not> usable stand_in_without_root [1, 1]"
    by (simp add: stand_in_without_root_def)
  show ?thesis
    using h u
      no_root_logs_and_aborts [of "initial host_document" "[1, 1]" stand_in_without_root, OF h u]
    by (simp add: initial_def)
qed

subsection \<open>C5: nothing before the ready signal, and each run complete\<close>



subsection \<open>C6: the text of the button\<close>

text \<open>
  C6, as stated, promises an empty text node for the empty text. For the empty string
  the library makes no text node: the \<open>span\<close> of the rendered button has no child.
\<close>

theorem empty_text_counterexample:
  "concat (map dom_text_nodes (render_dom (ButtonElement []))) = [] \<and>
   render_dom (ButtonElement []) =
     [DomElement ''button'' [(''class'', Style ''container'')]
        [DomIcon CaretLeft [(''size'', Num 32)],
         DomElement ''span'' [(''class'', Style ''text'')] [],
         DomIcon CaretRight [(''size'', Num 32)]]]"
  by (simp add: Button_def dom_attrs_def)

text \<open>
  C6, amended: the Button component is a function of its text alone, and different texts
  give different buttons. What is rendered for it is one button whose \<open>span\<close> has
  the text as its text content: for \<open>Click me\<close> its one text node is
  \<open>Click me\<close>; for the empty string the button is rendered all the same, and the
  \<open>span\<close> holds no text node.
\<close>

theorem Button_renders_text:
  "text_nodes (Button text) = [text] \<and>
   (Button text = Button text') = (text = text') \<and>
   render_dom (ButtonElement text) =
     [DomElement ''button'' [(''class'', Style ''container'')]
        [DomIcon CaretLeft [(''size'', Num 32)],
         DomElement ''span'' [(''class'', Style ''text'')]
           (if text = [] then [] else [DomText text]),
         DomIcon CaretRight [(''size'', Num 32)]]] \<and>
   map text_content (render_dom (ButtonElement text)) = [text] \<and>
   concat (map dom_text_nodes (render_dom (ButtonElement text))) =
     (if text = [] then [] else [text]) \<and>
   concat (map dom_text_nodes (render_dom (ButtonElement ''Click me''))) = [''Click me''] \<and>
   map text_content (render_dom (ButtonElement [])) = [[]] \<and>
   length (render_dom (ButtonElement [])) = 1"
  by (simp add: Button_def dom_attrs_def)

subsection \<open>C7: the build configuration\<close>

text \<open>
  C7: the configuration names one entry file (\<open>./src/main.jsx\<close>), one output file
  name (\<open>react-build.js\<close>), one output directory (\<open>../static/build/\<close>), and a
  development server origin with \<open>cors\<close> enabled.
\<close>

theorem config_fixed:
  "input (rollupOptions (build config)) = ''./src/main.jsx'' \<and>
   entryFileNames (output_options (rollupOptions (build config))) = ''react-build.js'' \<and>
   outDir (build config) = ''../static/build/'' \<and>
   origin (server config) = ''http://localhost:8000'' \<and>
   cors (server config)"
  by (simp add: config_def defineConfig_def)

subsection \<open>C8: the two error messages\<close>

text \<open>
  C8: with the anchor missing the callback logs exactly \<open>DOMContent not loaded :(\<close>;
  with the anchor found and no usable root it logs exactly
  \<open>Root for React not found\<close>; on success the script logs nothing, and the only
  thing that can reach \<open>console.error\<close> is the library's complaint about a repeated
  root in the development build. The two texts differ. The text that says
  \<open>not found\<close> is logged only when the anchor was found, and the text that says
  \<open>not loaded\<close> only after the ready signal was dispatched.
\<close>

theorem error_messages:
  "(getElementById (document s) ''react-root'' = None \<longrightarrow>
      ready_effects lib s = [EvLookup ''react-root'', EvError ''DOMContent not loaded :(''])
   \<and> (\<forall>p. getElementById (document s) ''react-root'' = Some p \<and> \<not> usable lib p \<longrightarrow>
      ready_effects lib s =
        [EvLookup ''react-root'', EvCreateRoot p, EvError ''Root for React not found''])
   \<and> (\<forall>p. getElementById (document s) ''react-root'' = Some p \<and> usable lib p \<longrightarrow>
      console_errors (ready_effects lib s) = [] \<and>
      console_output (ready_effects lib s) =
        (if development lib \<and> p \<in> set (rooted s) then [RepeatedRoot] else []))
   \<and> ''DOMContent not loaded :('' \<noteq> ''Root for React not found''
   \<and> (''Root for React not found'' \<in> set (console_errors (ready_effects lib s)) \<longrightarrow>
        ''react-root'' \<in> set (element_ids (document s)))
   \<and> (''DOMContent not loaded :('' \<in>
          set (console_errors (trace (run lib steps (initial d)))) \<longrightarrow>
        EvDispatch ''DOMContentLoaded'' \<in> set (trace (run lib steps (initial d))))"
proof -
  have run: "''DOMContent not loaded :('' \<in>
          set (console_errors (trace (run lib steps (initial d)))) \<longrightarrow>
        EvDispatch ''DOMContentLoaded'' \<in> set (trace (run lib steps (initial d)))"
    using logged_after_ready by blast
  show ?thesis
  proof (cases "getElementById (document s) ''react-root''")
    case None
    with run show ?thesis
      by (simp add: ready_effects_no_anchor)
  next
    case (Some p)
    then have "''react-root'' \<in> set (element_ids (document s))"
      using getElementById_None_iff [of "''react-root''" "document s"] by simp
    with Some run show ?thesis
      by (cases "usable lib p") (simp_all add: ready_effects_no_root ready_effects_mounted)
  qed
qed

text \<open>C8 at a document with no anchor, and at the host document with no usable root.\<close>

theorem error_messages_witness:
  "getElementById (document (initial bare_document)) ''react-root'' = None \<and>
   ready_effects (react_dom_client True) (initial bare_document) =
     [EvLookup ''react-root'', EvError ''DOMContent not loaded :(''] \<and>
   getElementById (document (initial host_document)) ''react-root'' = Some [1, 1] \<and>
   \<not> usable stand_in_without_root [1, 1] \<and>
   ready_effects stand_in_without_root (initial host_document) =
     [EvLookup ''react-root'', EvCreateRoot [1, 1], EvError ''Root for React not found''] \<and>
   ''react-root'' \<in> set (element_ids (document (initial host_document)))"
proof -
  have a: "getElementById (document (initial bare_document)) ''react-root'' = None"
    by (simp add: initial_def bare_document_def getElementById_def)
  have h: "getElementById (document (initial host_document)) ''react-root'' = Some [1, 1]"
    by (simp add: initial_def host_document_def getElementById_def)
  have u: "\<not> usable stand_in_without_root [1, 1]"
    by (simp add: stand_in_without_root_def)
  show ?thesis
    using a h u
      error_messages [of "initial bare_document" "react_dom_client True"]
      error_messages [of "initial host_document" stand_in_without_root]
    by simp
qed

subsection \<open>C9: the structure of the button\<close>

text \<open>
  C9: for every text, the Button component returns one \<open>button\<close> element with
  exactly three children in this order: the left caret icon of size 32, a \<open>span\<close>
  holding the text, the right caret icon of size 32. No prop in the tree is an event
  handler. The component takes its text and nothing else, and returns the tree: it has
  no state.
\<close>

theorem Button_structure:
  "element_tag (Button text) = Some ''button'' \<and>
   children_of (Button text) =
     [Icon CaretLeft [(''size'', Num 32)],
      Host ''span'' [(''className'', Style ''text'')] [TextChild text],
      Icon CaretRight [(''size'', Num 32)]] \<and>
   length (children_of (Button text)) = 3 \<and>
   filter is_event_prop (prop_names (Button text)) = [] \<and>
   prop_names (Button text) = [''className'', ''size'', ''className'', ''size'']"
  by (simp add: Button_def is_event_prop_def)

subsection \<open>C10: what the outcome of a run depends on\<close>

text \<open>
  C10, as stated, promises the same log output for two runs in which the anchor is
  present and the root handle usable. With the development build, at the host document
  of the guide, the first run sends nothing to \<open>console.error\<close> and a second run,
  started once the first is done, sends the library's complaint about the repeated root.
\<close>

theorem repeated_run_counterexample:
  "getElementById (document (initial host_document)) ''react-root'' = Some [1, 1] \<and>
   getElementById
     (document (flush (snd (on_ready (react_dom_client True) (initial host_document)))))
     ''react-root'' = Some [1, 1] \<and>
   usable (react_dom_client True) [1, 1] \<and>
   fst (on_ready (react_dom_client True) (initial host_document)) = Mounted \<and>
   fst (on_ready (react_dom_client True)
     (flush (snd (on_ready (react_dom_client True) (initial host_document))))) = Mounted \<and>
   console_output (ready_effects (react_dom_client True) (initial host_document)) = [] \<and>
   console_output (ready_effects (react_dom_client True)
     (flush (snd (on_ready (react_dom_client True) (initial host_document))))) =
     [RepeatedRoot]"
proof -
  let ?lib = "react_dom_client True"
  let ?s = "initial host_document"
  have h: "getElementById (document ?s) ''react-root'' = Some [1, 1]"
    by (simp add: initial_def host_document_def getElementById_def)
  have u: "usable ?lib [1, 1]" and dev: "development ?lib"
    by (simp_all add: react_dom_client_def)
  note first = on_ready_mounted [OF h u]
  let ?t = "flush (snd (on_ready ?lib ?s))"
  have doc: "document ?t = commit [([1, 1], app)] (document ?s)"
    and marked: "rooted ?t = [[1, 1]]"
    by (simp_all add: first flush_def) (simp_all add: initial_def)
  have h': "getElementById (document ?t) ''react-root'' = Some [1, 1]"
    unfolding doc using commit_anchor [OF h, of "[([1, 1], app)]"] by simp
  from first have e1: "fst (on_ready ?lib ?s) = Mounted" by simp
  from on_ready_mounted [OF h' u] have e2: "fst (on_ready ?lib ?t) = Mounted" by simp
  have o1: "console_output (ready_effects ?lib ?s) = []"
    by (simp add: ready_effects_mounted [OF h u]) (simp add: initial_def)
  have o2: "console_output (ready_effects ?lib ?t) = [RepeatedRoot]"
    by (simp add: ready_effects_mounted [OF h' u] marked dev)
  from h h' u e1 e2 o1 o2 show ?thesis by simp
qed

text \<open>
  C10, amended: two runs of the callback against the same library from pages with the
  same document and the same library state (roots created, renders pending) have the
  same outcome, whatever their listeners and histories: the same exit, the same output
  on \<open>console.error\<close>, the same element rendered and the same content of the anchor
  once the library has done its part. The exit, the script's own messages and the
  element rendered depend only on whether the anchor is present and whether the root
  handle is usable; the output on \<open>console.error\<close> depends in addition on whether the
  development build finds a root already on the anchor.
\<close>

theorem outcome_determined:
  "(document s1 = document s2 \<and> rooted s1 = rooted s2 \<and> pending s1 = pending s2 \<longrightarrow>
      outcome lib1 s1 = outcome lib1 s2)
   \<and> ((getElementById (document s1) ''react-root'' = None) =
        (getElementById (document s2) ''react-root'' = None) \<and>
       (\<forall>p1 p2. getElementById (document s1) ''react-root'' = Some p1 \<and>
          getElementById (document s2) ''react-root'' = Some p2 \<longrightarrow>
          usable lib1 p1 = usable lib2 p2) \<longrightarrow>
       fst (on_ready lib1 s1) = fst (on_ready lib2 s2) \<and>
       console_errors (ready_effects lib1 s1) = console_errors (ready_effects lib2 s2) \<and>
       map snd (renders (ready_effects lib1 s1)) =
         map snd (renders (ready_effects lib2 s2)) \<and>
       ((\<forall>p1 p2. getElementById (document s1) ''react-root'' = Some p1 \<and>
            getElementById (document s2) ''react-root'' = Some p2 \<longrightarrow>
            (development lib1 \<and> p1 \<in> set (rooted s1)) =
            (development lib2 \<and> p2 \<in> set (rooted s2))) \<longrightarrow>
        console_output (ready_effects lib1 s1) = console_output (ready_effects lib2 s2)))"
proof -
  have same: "document s1 = document s2 \<and> rooted s1 = rooted s2 \<and> pending s1 = pending s2 \<longrightarrow>
      outcome lib1 s1 = outcome lib1 s2"
    using outcome_same_state [of s1 s2 lib1] by blast
  have agree: "(getElementById (document s1) ''react-root'' = None) =
        (getElementById (document s2) ''react-root'' = None) \<and>
       (\<forall>p1 p2. getElementById (document s1) ''react-root'' = Some p1 \<and>
          getElementById (document s2) ''react-root'' = Some p2 \<longrightarrow>
          usable lib1 p1 = usable lib2 p2) \<longrightarrow>
       fst (on_ready lib1 s1) = fst (on_ready lib2 s2) \<and>
       console_errors (ready_effects lib1 s1) = console_errors (ready_effects lib2 s2) \<and>
       map snd (renders (ready_effects lib1 s1)) =
         map snd (renders (ready_effects lib2 s2)) \<and>
       ((\<forall>p1 p2. getElementById (document s1) ''react-root'' = Some p1 \<and>
            getElementById (document s2) ''react-root'' = Some p2 \<longrightarrow>
            (development lib1 \<and> p1 \<in> set (rooted s1)) =
            (development lib2 \<and> p2 \<in> set (rooted s2))) \<longrightarrow>
        console_output (ready_effects lib1 s1) = console_output (ready_effects lib2 s2))"
  proof
    assume a: "(getElementById (document s1) ''react-root'' = None) =
        (getElementById (document s2) ''react-root'' = None) \<and>
       (\<forall>p1 p2. getElementById (document s1) ''react-root'' = Some p1 \<and>
          getElementById (document s2) ''react-root'' = Some p2 \<longrightarrow>
          usable lib1 p1 = usable lib2 p2)"
    from a have presence: "(getElementById (document s1) ''react-root'' = None) =
        (getElementById (document s2) ''react-root'' = None)" by (rule conjunct1)
    from a have root: "usable lib1 p1 = usable lib2 p2"
      if "getElementById (document s1) ''react-root'' = Some p1"
        "getElementById (document s2) ''react-root'' = Some p2" for p1 p2
      using that by blast
    show "fst (on_ready lib1 s1) = fst (on_ready lib2 s2) \<and>
       console_errors (ready_effects lib1 s1) = console_errors (ready_effects lib2 s2) \<and>
       map snd (renders (ready_effects lib1 s1)) =
         map snd (renders (ready_effects lib2 s2)) \<and>
       ((\<forall>p1 p2. getElementById (document s1) ''react-root'' = Some p1 \<and>
            getElementById (document s2) ''react-root'' = Some p2 \<longrightarrow>
            (development lib1 \<and> p1 \<in> set (rooted s1)) =
            (development lib2 \<and> p2 \<in> set (rooted s2))) \<longrightarrow>
        console_output (ready_effects lib1 s1) = console_output (ready_effects lib2 s2))"
      using presence root by (rule branch_agree)
  qed
  from same agree show ?thesis by (rule conjI)
qed

text \<open>
  C10, amended, at the host document of the guide before and after the script is loaded,
  and at a document whose anchor is the document element and already has content.
\<close>

theorem outcome_determined_witness:
  "document (initial host_document) = document (main_jsx (initial host_document)) \<and>
   rooted (initial host_document) = rooted (main_jsx (initial host_document)) \<and>
   pending (initial host_document) = pending (main_jsx (initial host_document)) \<and>
   outcome (react_dom_client True) (initial host_document) =
     outcome (react_dom_client True) (main_jsx (initial host_document)) \<and>
   outcome (react_dom_client True) (initial host_document) =
     (Mounted, [], [StrictMode [ButtonElement ''Click me'']],
      Some [DomElement ''button'' [(''class'', Style ''container'')]
         [DomIcon CaretLeft [(''size'', Num 32)],
          DomElement ''span'' [(''class'', Style ''text'')] [DomText ''Click me''],
          DomIcon CaretRight [(''size'', Num 32)]]]) \<and>
   getElementById (document (initial host_document)) ''react-root'' = Some [1, 1] \<and>
   getElementById
     (document (initial (DomElement ''div'' [(''id'', Str ''react-root'')] [DomText ''loading''])))
     ''react-root'' = Some [] \<and>
   usable (react_dom_client True) [1, 1] = usable (react_dom_client False) [] \<and>
   fst (on_ready (react_dom_client True) (initial host_document)) =
     fst (on_ready (react_dom_client False)
       (initial (DomElement ''div'' [(''id'', Str ''react-root'')] [DomText ''loading'']))) \<and>
   console_output (ready_effects (react_dom_client True) (initial host_document)) =
     console_output (ready_effects (react_dom_client False)
       (initial (DomElement ''div'' [(''id'', Str ''react-root'')] [DomText ''loading''])))"
proof -
  let ?lib = "react_dom_client True"
  let ?s = "initial host_document"
  let ?t = "initial (DomElement ''div'' [(''id'', Str ''react-root'')] [DomText ''loading''])"
  have same: "document ?s = document (main_jsx ?s)" "rooted ?s = rooted (main_jsx ?s)"
    "pending ?s = pending (main_jsx ?s)"
    by (simp_all add: main_jsx_def emit_def)
  have eq: "outcome ?lib ?s = outcome ?lib (main_jsx ?s)"
    using outcome_determined [of ?s "main_jsx ?s" ?lib] same by simp
  have h: "getElementById (document ?s) ''react-root'' = Some [1, 1]"
    by (simp add: initial_def host_document_def getElementById_def)
  have u: "usable ?lib [1, 1]"
    by (simp add: react_dom_client_def)
  have doc: "mounted_document ?lib ?s = commit [([1, 1], app)] (document ?s)"
    by (simp add: mounted_document_def flush_def on_ready_mounted [OF h u])
       (simp add: initial_def)
  have content: "anchor_content (mounted_document ?lib ?s) = Some (render_dom app)"
    unfolding doc anchor_content_def
    using commit_anchor [OF h, of "[([1, 1], app)]"] by simp
  have val: "outcome ?lib ?s =
     (Mounted, [], [StrictMode [ButtonElement ''Click me'']],
      Some [DomElement ''button'' [(''class'', Style ''container'')]
         [DomIcon CaretLeft [(''size'', Num 32)],
          DomElement ''span'' [(''class'', Style ''text'')] [DomText ''Click me''],
          DomIcon CaretRight [(''size'', Num 32)]]])"
    unfolding outcome_def content render_dom_app
    by (simp add: ready_effects_mounted [OF h u] on_ready_mounted [OF h u])
       (simp add: initial_def app_def)
  have h': "getElementById (document ?t) ''react-root'' = Some []"
    by (simp add: initial_def getElementById_def)
  have us: "usable ?lib [1, 1] = usable (react_dom_client False) []"
    by (simp add: react_dom_client_def)
  have fresh: "rooted ?s = []" "rooted ?t = []"
    by (simp_all add: initial_def)
  have other: "fst (on_ready ?lib ?s) = fst (on_ready (react_dom_client False) ?t) \<and>
      console_output (ready_effects ?lib ?s) =
        console_output (ready_effects (react_dom_client False) ?t)"
    using outcome_determined [of ?s ?t ?lib "react_dom_client False"] h h' us fresh
    by simp
  from same eq val h h' us other show ?thesis by simp
qed

end
